theory Spec2Isabelle
  imports Main
begin

section \<open>Data model (internal/model/message.go)\<close>

text \<open>
  A \<^verbatim>\<open>time.Time\<close> is an instant on an integer time line. The handlers read the clock
  with \<^verbatim>\<open>time.Now()\<close>; the value read is an input of the model (field \<open>Now\<close> of the
  environment below).
\<close>

type_synonym timestamp = int

text \<open>\<^verbatim>\<open>*time.Time\<close> with \<^verbatim>\<open>nil\<close> is \<open>None\<close>.\<close>

record Message =
  ID :: string
  Content :: string
  CreatedAt :: timestamp
  DeletedAt :: "timestamp option"

text \<open>
  \<^verbatim>\<open>DeleteEventMessage{Type, ID, DeletedAt}\<close>; the last two fields carry the prefix
  \<open>Event\<close> here because \<open>ID\<close> and \<open>DeletedAt\<close> already name the fields of \<open>Message\<close>.
\<close>

record DeleteEventMessage =
  Type :: string
  EventID :: string
  EventDeletedAt :: timestamp

text \<open>The zero value of \<^verbatim>\<open>model.Message\<close> (\<^verbatim>\<open>var msg model.Message\<close>).\<close>

definition zero_Message :: Message where
  "zero_Message = \<lparr>ID = [], Content = [], CreatedAt = 0, DeletedAt = None\<rparr>"

section \<open>Configuration (internal/config/config.go)\<close>

text \<open>Only \<^verbatim>\<open>AllowedOrigins\<close> is read by the handlers.\<close>

record Config =
  AllowedOrigins :: "string list"

section \<open>fmt.Sprintf("%d", n) on a non-negative integer\<close>

definition digit_char :: "nat \<Rightarrow> char" where
  "digit_char d = ''0123456789'' ! d"

function Sprintf_d :: "nat \<Rightarrow> string" where
  "Sprintf_d n = (if n < 10 then [digit_char n] else Sprintf_d (n div 10) @ [digit_char (n mod 10)])"
  by pat_completeness auto
termination
  by (relation "measure id") auto

declare Sprintf_d.simps [simp del]



section \<open>The messages table\<close>

text \<open>
  The store is MariaDB behind \<^verbatim>\<open>database/sql\<close>. The model keeps the table
  \<^verbatim>\<open>messages(id INT AUTO_INCREMENT, content, created_at, deleted_at NULL)\<close> as the list of
  its rows in insertion order, and the next AUTO_INCREMENT value. Each SQL statement of
  the handlers is one function below and is atomic. A statement stores the values it is
  given (the precision of a DATETIME column is outside the model), and \<^verbatim>\<open>WHERE id = ?\<close>
  with the text of the path variable selects the row whose id prints as that text.
  Every call into the driver can return an error; whether it does is an input
  (a flag of the environment), so each \<^verbatim>\<open>if err != nil\<close> branch of a handler is a branch
  of the model.
\<close>

record row =
  row_id :: nat
  row_content :: string
  row_created_at :: timestamp
  row_deleted_at :: "timestamp option"

record db =
  messages :: "row list"
  auto_increment :: nat

datatype error =
    ErrDriver
  | ErrBodyTooLarge
  | ErrDecode
  | ErrURLParse
  | ErrBadHandshake
  | ErrOriginNotAllowed

definition id_is :: "string \<Rightarrow> row \<Rightarrow> bool" where
  "id_is i r = (Sprintf_d (row_id r) = i)"

definition is_active :: "row \<Rightarrow> bool" where
  "is_active r = (row_deleted_at r = None)"

text \<open>\<^verbatim>\<open>SELECT EXISTS(SELECT 1 FROM messages WHERE id = ? AND deleted_at IS NULL)\<close>\<close>

definition QueryRow_exists :: "bool \<Rightarrow> db \<Rightarrow> string \<Rightarrow> error + bool" where
  "QueryRow_exists err d i =
     (if err then Inl ErrDriver
      else Inr (list_ex (\<lambda>r. id_is i r \<and> is_active r) (messages d)))"

text \<open>\<^verbatim>\<open>UPDATE messages SET deleted_at = ? WHERE id = ?\<close>\<close>

definition set_deleted_at :: "timestamp \<Rightarrow> string \<Rightarrow> row \<Rightarrow> row" where
  "set_deleted_at t i r = (if id_is i r then r\<lparr>row_deleted_at := Some t\<rparr> else r)"

definition Exec_update :: "bool \<Rightarrow> db \<Rightarrow> timestamp \<Rightarrow> string \<Rightarrow> error + db" where
  "Exec_update err d t i =
     (if err then Inl ErrDriver
      else Inr (d\<lparr>messages := map (set_deleted_at t i) (messages d)\<rparr>))"

text \<open>
  \<^verbatim>\<open>INSERT INTO messages (content, created_at, deleted_at) VALUES (?, ?, ?)\<close>; the second
  component of the result is what \<^verbatim>\<open>result.LastInsertId()\<close> reads.
\<close>

definition Exec_insert ::
  "bool \<Rightarrow> db \<Rightarrow> string \<Rightarrow> timestamp \<Rightarrow> timestamp option \<Rightarrow> error + (db \<times> nat)" where
  "Exec_insert err d c t dl =
     (if err then Inl ErrDriver
      else Inr (d\<lparr>messages := messages d @
                     [\<lparr>row_id = auto_increment d, row_content = c,
                       row_created_at = t, row_deleted_at = dl\<rparr>],
                   auto_increment := auto_increment d + 1\<rparr>,
                auto_increment d))"

definition LastInsertId :: "bool \<Rightarrow> nat \<Rightarrow> error + nat" where
  "LastInsertId err n = (if err then Inl ErrDriver else Inr n)"

section \<open>The handler and its environment (internal/handler/handler.go)\<close>

text \<open>A \<^verbatim>\<open>*websocket.Conn\<close> is the identity of a connection.\<close>

type_synonym conn = nat

text \<open>
  The calls a handler makes to its collaborators, in the order it makes them. A call is
  recorded when it is made, whether or not it returns an error.
\<close>

datatype effect =
    SqlInsert string timestamp "timestamp option"
  | SqlSelectExists string
  | SqlUpdateDeletedAt timestamp string
  | SqlSelectActive nat
  | ChanSend DeleteEventMessage
  | WsUpgrade conn
  | WsWriteJSON conn DeleteEventMessage
  | WsClose conn

text \<open>
  \<^verbatim>\<open>Handler{DB, Config, Clients, ClientMu, Broadcast}\<close>. \<open>Clients\<close> is the key list of
  \<^verbatim>\<open>map[*websocket.Conn]bool\<close> (every stored value is \<^verbatim>\<open>true\<close>); a block between
  \<^verbatim>\<open>ClientMu.Lock()\<close> and \<^verbatim>\<open>Unlock()\<close> is one atomic update of it. \<open>Broadcast\<close> is the
  content of the buffered channel, oldest first. \<open>Trace\<close> is not a field of the Go
  struct: it records the effects.
\<close>

record Handler =
  DB :: db
  Config :: Config
  Clients :: "conn list"
  Broadcast :: "DeleteEventMessage list"
  Trace :: "effect list"

text \<open>\<^verbatim>\<open>make(chan model.DeleteEventMessage, 100)\<close> in \<^verbatim>\<open>New\<close>.\<close>

definition BroadcastCap :: nat where
  "BroadcastCap = 100"

text \<open>What a handler reads from outside the program during one call.\<close>

record Env =
  Now :: timestamp
  QueryErr :: bool
  ExecErr :: bool
  LastInsertIdErr :: bool
  ScanErr :: "row \<Rightarrow> bool"
  RowsErr :: bool
  Rand :: "nat \<Rightarrow> nat"
  UpgradeErr :: bool
  NewConn :: conn
  WriteErr :: "conn \<Rightarrow> bool"
  MapOrder :: "conn \<Rightarrow> nat"

text \<open>
  \<^verbatim>\<open>*http.Request\<close>: the header fields, the body, and the route variables of
  \<^verbatim>\<open>mux.Vars\<close>.
\<close>

record Request =
  Header :: "string \<Rightarrow> string list"
  Body :: string
  Vars :: "string \<Rightarrow> string"

text \<open>\<^verbatim>\<open>r.Header.Get(key)\<close>: the first value, or the empty string.\<close>

definition Header_Get :: "Request \<Rightarrow> string \<Rightarrow> string" where
  "Header_Get r k = (case Header r k of [] \<Rightarrow> [] | v # _ \<Rightarrow> v)"

datatype response =
    StatusCreated Message
  | StatusOK "Message list"
  | StatusNoContent
  | StatusBadRequest string
  | StatusForbidden string
  | StatusNotFound string
  | StatusInternalServerError string

definition record_effect :: "effect \<Rightarrow> Handler \<Rightarrow> Handler" where
  "record_effect e h = h\<lparr>Trace := Trace h @ [e]\<rparr>"

section \<open>DeleteMessage (internal/handler/message.go, lines 173-219)\<close>

text \<open>
  The result is \<open>None\<close> when the handler does not return: the send on \<open>Broadcast\<close> blocks
  while the channel holds \<open>BroadcastCap\<close> events.
\<close>

definition DeleteMessage :: "Env \<Rightarrow> Request \<Rightarrow> Handler \<Rightarrow> response option \<times> Handler" where
  "DeleteMessage env r h =
     (let i = Vars r ''id'';
          h1 = record_effect (SqlSelectExists i) h
      in case QueryRow_exists (QueryErr env) (DB h1) i of
           Inl err \<Rightarrow> (Some (StatusInternalServerError ''Database error''), h1)
         | Inr exists \<Rightarrow>
             if \<not> exists then (Some (StatusNotFound ''Message not found''), h1)
             else
               let now = Now env;
                   h2 = record_effect (SqlUpdateDeletedAt now i) h1
               in case Exec_update (ExecErr env) (DB h2) now i of
                    Inl err \<Rightarrow> (Some (StatusInternalServerError ''Failed to delete message''), h2)
                  | Inr d \<Rightarrow>
                      let h3 = h2\<lparr>DB := d\<rparr>;
                          ev = \<lparr>Type = ''message_deleted'', EventID = i, EventDeletedAt = now\<rparr>
                      in if length (Broadcast h3) < BroadcastCap
                         then (Some StatusNoContent,
                               record_effect (ChanSend ev) (h3\<lparr>Broadcast := Broadcast h3 @ [ev]\<rparr>))
                         else (None, h3))"

section \<open>CreateMessage (internal/handler/message.go, lines 16-73)\<close>

text \<open>
  \<^verbatim>\<open>http.MaxBytesReader(w, r.Body, n)\<close>: a reader that delivers the first \<open>n\<close> bytes of
  the body and then, when the body is longer, fails with "request body too large"
  instead of reaching the end of input. The pair is the bytes delivered and the error
  that ends the stream, if any.
\<close>

definition MaxBytesReader :: "nat \<Rightarrow> string \<Rightarrow> string \<times> error option" where
  "MaxBytesReader n body = (take n body, if n < length body then Some ErrBodyTooLarge else None)"

text \<open>
  \<^verbatim>\<open>json.NewDecoder(reader).Decode(&msg)\<close> on a zero \<^verbatim>\<open>msg\<close> belongs to the standard
  library; the handlers take it as a parameter \<open>Decode\<close> from the stream to an error or
  the decoded message.
\<close>

type_synonym json_Decoder = "string \<times> error option \<Rightarrow> error + Message"

definition CreateMessage ::
  "json_Decoder \<Rightarrow> Env \<Rightarrow> Request \<Rightarrow> Handler \<Rightarrow> response \<times> Handler" where
  "CreateMessage Decode env r h =
     (case Decode (MaxBytesReader (2 ^ 20) (Body r)) of
        Inl err \<Rightarrow> (StatusBadRequest ''Invalid request body'', h)
      | Inr decoded \<Rightarrow>
          (if Content decoded = [] then (StatusBadRequest ''content is required'', h)
           else
             (let msg = decoded\<lparr>CreatedAt := Now env, DeletedAt := None\<rparr>;
                  h1 = record_effect (SqlInsert (Content msg) (CreatedAt msg) (DeletedAt msg)) h
              in (case Exec_insert (ExecErr env) (DB h1) (Content msg) (CreatedAt msg) (DeletedAt msg) of
                    Inl err \<Rightarrow> (StatusInternalServerError ''Failed to create message'', h1)
                  | Inr (d, result) \<Rightarrow>
                      (case LastInsertId (LastInsertIdErr env) result of
                         Inl err \<Rightarrow>
                           (StatusInternalServerError ''Failed to retrieve message id'', h1\<lparr>DB := d\<rparr>)
                       | Inr lastInsertID \<Rightarrow>
                           (StatusCreated (msg\<lparr>ID := Sprintf_d lastInsertID\<rparr>), h1\<lparr>DB := d\<rparr>))))))"

section \<open>GetMessages (internal/handler/message.go, lines 75-171)\<close>

definition maxMessagesPerRequest :: nat where
  "maxMessagesPerRequest = 10"

fun isOriginAllowed_loop :: "string \<Rightarrow> string list \<Rightarrow> bool" where
  "isOriginAllowed_loop origin [] = False"
| "isOriginAllowed_loop origin (allowed # rest) =
     (if origin = allowed then True else isOriginAllowed_loop origin rest)"

definition isOriginAllowed :: "Handler \<Rightarrow> string \<Rightarrow> bool" where
  "isOriginAllowed h origin = isOriginAllowed_loop origin (AllowedOrigins (Config h))"

text \<open>
  \<^verbatim>\<open>url.Parse\<close> belongs to the standard library and is a parameter \<open>url_Parse\<close> of the
  handler; of the \<^verbatim>\<open>*url.URL\<close> it returns the handler reads \<^verbatim>\<open>Scheme\<close> and \<^verbatim>\<open>Host\<close>.
\<close>

record URL =
  Scheme :: string
  Host :: string

type_synonym url_Parser = "string \<Rightarrow> error + URL"

text \<open>
  \<^verbatim>\<open>ORDER BY RAND()\<close>: the engine draws a number for each candidate row and sorts by it;
  \<open>rand k\<close> is the number drawn for the \<open>k\<close>-th candidate.
\<close>

definition order_by_rand :: "(nat \<Rightarrow> nat) \<Rightarrow> row list \<Rightarrow> row list" where
  "order_by_rand rand rs = map snd (sort_key fst (zip (map rand [0..<length rs]) rs))"

text \<open>
  \<^verbatim>\<open>SELECT id, content, created_at FROM messages WHERE deleted_at IS NULL
  ORDER BY RAND() LIMIT ?\<close>
\<close>

definition Query_active :: "bool \<Rightarrow> (nat \<Rightarrow> nat) \<Rightarrow> db \<Rightarrow> nat \<Rightarrow> error + row list" where
  "Query_active err rand d n =
     (if err then Inl ErrDriver
      else Inr (take n (order_by_rand rand (filter is_active (messages d)))))"

text \<open>\<^verbatim>\<open>rows.Scan(&msg.ID, &msg.Content, &msg.CreatedAt)\<close> into a zero message.\<close>

definition scan_row :: "row \<Rightarrow> Message" where
  "scan_row r = zero_Message\<lparr>ID := Sprintf_d (row_id r), Content := row_content r,
                              CreatedAt := row_created_at r\<rparr>"

text \<open>The loop \<^verbatim>\<open>for rows.Next()\<close>: a row whose scan fails is skipped.\<close>

fun scan_rows :: "(row \<Rightarrow> bool) \<Rightarrow> row list \<Rightarrow> Message list \<Rightarrow> Message list" where
  "scan_rows scanErr [] msgList = msgList"
| "scan_rows scanErr (r # rs) msgList =
     (if scanErr r then scan_rows scanErr rs msgList
      else scan_rows scanErr rs (msgList @ [scan_row r]))"

text \<open>Lines 131-170: the query and the response, after the origin check has passed.\<close>

definition GetMessages_query :: "Env \<Rightarrow> Handler \<Rightarrow> response \<times> Handler" where
  "GetMessages_query env h =
     (let h1 = record_effect (SqlSelectActive maxMessagesPerRequest) h
      in case Query_active (QueryErr env) (Rand env) (DB h1) maxMessagesPerRequest of
           Inl err \<Rightarrow> (StatusInternalServerError ''Database error'', h1)
         | Inr rs \<Rightarrow>
             (let msgList = scan_rows (ScanErr env) rs []
              in if RowsErr env then (StatusInternalServerError ''Database error'', h1)
                 else (StatusOK msgList, h1)))"

definition GetMessages ::
  "url_Parser \<Rightarrow> Env \<Rightarrow> Request \<Rightarrow> Handler \<Rightarrow> response \<times> Handler" where
  "GetMessages url_Parse env r h =
     (let origin = Header_Get r ''Origin''
      in if origin \<noteq> [] then
           (if \<not> isOriginAllowed h origin then (StatusForbidden ''Forbidden'', h)
            else GetMessages_query env h)
         else
           (let referer = Header_Get r ''Referer''
            in if referer = [] then (StatusForbidden ''Forbidden'', h)
               else
                 (case url_Parse referer of
                    Inl err \<Rightarrow> (StatusForbidden ''Forbidden'', h)
                  | Inr parsed \<Rightarrow>
                      (if Scheme parsed = [] \<or> Host parsed = []
                       then (StatusForbidden ''Forbidden'', h)
                       else
                         (let refererOrigin = Scheme parsed @ ''://'' @ Host parsed
                          in if \<not> isOriginAllowed h refererOrigin
                             then (StatusForbidden ''Forbidden'', h)
                             else GetMessages_query env h)))))"

section \<open>The subscription endpoint (HandleWebSocket)\<close>

text \<open>The map \<^verbatim>\<open>allowedMap\<close> that \<^verbatim>\<open>createUpgrader\<close> builds.\<close>

definition createUpgrader :: "string list \<Rightarrow> (string \<Rightarrow> bool option)" where
  "createUpgrader allowedOrigins =
     fold (\<lambda>origin allowedMap. allowedMap(origin \<mapsto> True)) allowedOrigins Map.empty"

text \<open>The closure \<^verbatim>\<open>CheckOrigin\<close>; a key that is not in a Go map reads as \<^verbatim>\<open>false\<close>.\<close>

definition CheckOrigin :: "(string \<Rightarrow> bool option) \<Rightarrow> Request \<Rightarrow> bool" where
  "CheckOrigin allowedMap r =
     (let origin = Header_Get r ''Origin''
      in case allowedMap origin of None \<Rightarrow> False | Some b \<Rightarrow> b)"

text \<open>
  \<^verbatim>\<open>upgrader.Upgrade(w, r, nil)\<close> of gorilla/websocket: it fails when the request is not
  a well-formed handshake or the connection cannot be taken over (the flag
  \<open>UpgradeErr\<close>), it fails when \<^verbatim>\<open>CheckOrigin\<close> returns false, and otherwise it creates
  the connection \<open>NewConn\<close>.
\<close>

definition Upgrade :: "(string \<Rightarrow> bool option) \<Rightarrow> Env \<Rightarrow> Request \<Rightarrow> error + conn" where
  "Upgrade allowedMap env r =
     (if UpgradeErr env then Inl ErrBadHandshake
      else if \<not> CheckOrigin allowedMap r then Inl ErrOriginNotAllowed
      else Inr (NewConn env))"

text \<open>\<^verbatim>\<open>h.Clients[conn] = true\<close> and \<^verbatim>\<open>delete(h.Clients, conn)\<close> on the key list.\<close>

definition Clients_put :: "conn \<Rightarrow> conn list \<Rightarrow> conn list" where
  "Clients_put c cs = (if c \<in> set cs then cs else cs @ [c])"

definition Clients_delete :: "conn \<Rightarrow> conn list \<Rightarrow> conn list" where
  "Clients_delete c cs = removeAll c cs"

text \<open>
  Lines 26-40: the upgrade and the registration. The result is the error of a refused
  upgrade, or the connection on which the read loop then runs.
\<close>

definition HandleWebSocket :: "Env \<Rightarrow> Request \<Rightarrow> Handler \<Rightarrow> (error + conn) \<times> Handler" where
  "HandleWebSocket env r h =
     (let upgrader = createUpgrader (AllowedOrigins (Config h))
      in case Upgrade upgrader env r of
           Inl err \<Rightarrow> (Inl err, h)
         | Inr conn \<Rightarrow>
             (Inr conn,
              (record_effect (WsUpgrade conn) h)\<lparr>Clients := Clients_put conn (Clients h)\<rparr>))"

text \<open>Lines 46-49: the removal on the disconnect path, under the write lock.\<close>

definition disconnect :: "conn \<Rightarrow> Handler \<Rightarrow> Handler" where
  "disconnect conn h = h\<lparr>Clients := Clients_delete conn (Clients h)\<rparr>"


section \<open>The dispatch loop (HandleBroadcast)\<close>

text \<open>
  Lines 62-67: the snapshot, taken under the read lock. Go ranges over a map in an
  order of its choosing; \<open>order\<close> ranks the connections for this iteration.
\<close>

definition snapshot :: "(conn \<Rightarrow> nat) \<Rightarrow> Handler \<Rightarrow> conn list" where
  "snapshot order h = sort_key order (Clients h)"

text \<open>Lines 71-74: what follows a failed write.\<close>

definition onWriteError :: "conn \<Rightarrow> Handler \<Rightarrow> Handler" where
  "onWriteError client h =
     (record_effect (WsClose client) h)\<lparr>Clients := Clients_delete client (Clients h)\<rparr>"

text \<open>Lines 69-76: the loop over the snapshot.\<close>

fun writeAll :: "(conn \<Rightarrow> bool) \<Rightarrow> DeleteEventMessage \<Rightarrow> conn list \<Rightarrow> Handler \<Rightarrow> Handler" where
  "writeAll writeErr event [] h = h"
| "writeAll writeErr event (client # rest) h =
     (let h1 = record_effect (WsWriteJSON client event) h
      in writeAll writeErr event rest (if writeErr client then onWriteError client h1 else h1))"

text \<open>
  One iteration of \<^verbatim>\<open>for event := range h.Broadcast\<close>: \<open>None\<close> when the channel is empty
  and the loop waits.
\<close>

definition broadcastOne :: "Env \<Rightarrow> Handler \<Rightarrow> Handler option" where
  "broadcastOne env h =
     (case Broadcast h of
        [] \<Rightarrow> None
      | event # queue \<Rightarrow>
          (let h1 = h\<lparr>Broadcast := queue\<rparr>
           in Some (writeAll (WriteErr env) event (snapshot (MapOrder env) h1) h1)))"

text \<open>
  The loop never returns. \<open>HandleBroadcast envs h\<close> runs one iteration for each
  environment of the list, as long as the channel holds an event.
\<close>

fun HandleBroadcast :: "Env list \<Rightarrow> Handler \<Rightarrow> Handler" where
  "HandleBroadcast [] h = h"
| "HandleBroadcast (env # envs) h =
     (case broadcastOne env h of
        None \<Rightarrow> h
      | Some h1 \<Rightarrow> HandleBroadcast envs h1)"

section \<open>Requests served one after another\<close>





section \<open>DeleteMessage running concurrently with itself\<close>

text \<open>
  net/http serves every request on a goroutine of its own, and \<^verbatim>\<open>DeleteMessage\<close> holds
  no lock and opens no transaction: between two of its statements another request can
  run. The steps of one call are its three calls to the outside: the SELECT, the
  UPDATE (with the clock read before it) and the channel send.
\<close>

datatype delete_pc =
    AtSelect
  | AtUpdate
  | AtSend timestamp
  | Returned response

definition DeleteMessage_step ::
  "Env \<Rightarrow> string \<Rightarrow> delete_pc \<Rightarrow> Handler \<Rightarrow> (delete_pc \<times> Handler) option" where
  "DeleteMessage_step env i pc h =
     (case pc of
        AtSelect \<Rightarrow>
          (let h1 = record_effect (SqlSelectExists i) h
           in case QueryRow_exists (QueryErr env) (DB h1) i of
                Inl err \<Rightarrow> Some (Returned (StatusInternalServerError ''Database error''), h1)
              | Inr exists \<Rightarrow>
                  if \<not> exists then Some (Returned (StatusNotFound ''Message not found''), h1)
                  else Some (AtUpdate, h1))
      | AtUpdate \<Rightarrow>
          (let now = Now env;
               h2 = record_effect (SqlUpdateDeletedAt now i) h
           in case Exec_update (ExecErr env) (DB h2) now i of
                Inl err \<Rightarrow> Some (Returned (StatusInternalServerError ''Failed to delete message''), h2)
              | Inr d \<Rightarrow> Some (AtSend now, h2\<lparr>DB := d\<rparr>))
      | AtSend now \<Rightarrow>
          (let ev = \<lparr>Type = ''message_deleted'', EventID = i, EventDeletedAt = now\<rparr>
           in if length (Broadcast h) < BroadcastCap
              then Some (Returned StatusNoContent,
                         record_effect (ChanSend ev) (h\<lparr>Broadcast := Broadcast h @ [ev]\<rparr>))
              else None)
      | Returned resp \<Rightarrow> None)"

text \<open>
  Several calls in flight: each is the id it was called with and the place it has
  reached. A schedule names, step by step, the call that moves and what it reads from
  outside; a call that cannot move (it has returned, or its send blocks) stays.
\<close>

fun run_deletes ::
  "(nat \<times> Env) list \<Rightarrow> (string \<times> delete_pc) list \<Rightarrow> Handler \<Rightarrow> (string \<times> delete_pc) list \<times> Handler" where
  "run_deletes [] ts h = (ts, h)"
| "run_deletes ((k, env) # sched) ts h =
     (if k < length ts then
        (case DeleteMessage_step env (fst (ts ! k)) (snd (ts ! k)) h of
           None \<Rightarrow> run_deletes sched ts h
         | Some (pc, h1) \<Rightarrow> run_deletes sched (ts[k := (fst (ts ! k), pc)]) h1)
      else run_deletes sched ts h)"

section \<open>Fixtures for the examples\<close>

definition env0 :: Env where
  "env0 = \<lparr>Now = 0, QueryErr = False, ExecErr = False, LastInsertIdErr = False,
           ScanErr = (\<lambda>r. False), RowsErr = False, Rand = (\<lambda>k. k), UpgradeErr = False,
           NewConn = 0, WriteErr = (\<lambda>c. False), MapOrder = (\<lambda>c. c)\<rparr>"

definition req0 :: Request where
  "req0 = \<lparr>Header = (\<lambda>k. []), Body = [], Vars = (\<lambda>k. [])\<rparr>"

text \<open>The configuration of \<^verbatim>\<open>newTestHandler\<close> over an empty table.\<close>

definition h0 :: Handler where
  "h0 = \<lparr>DB = \<lparr>messages = [], auto_increment = 1\<rparr>,
          Config = \<lparr>AllowedOrigins = [''http://localhost:8080'', ''http://127.0.0.1:8080'']\<rparr>,
          Clients = [], Broadcast = [], Trace = []\<rparr>"

definition h_one :: Handler where
  "h_one = h0\<lparr>DB := \<lparr>messages = [\<lparr>row_id = 1, row_content = ''hi'', row_created_at = 0,
                                    row_deleted_at = None\<rparr>],
                      auto_increment = 2\<rparr>\<rparr>"



text \<open>A decoder that returns a message with every field set by the client.\<close>

definition forged_Decode :: json_Decoder where
  "forged_Decode s = Inr \<lparr>ID = ''999'', Content = ''hi'', CreatedAt = 7, DeletedAt = Some 8\<rparr>"

definition rows_many :: "row list" where
  "rows_many = map (\<lambda>k. \<lparr>row_id = k, row_content = ''m'', row_created_at = 0,
                          row_deleted_at = (if k = 3 then Some 1 else None)\<rparr>) [1..<13]"


definition h_many :: Handler where
  "h_many = h0\<lparr>DB := \<lparr>messages = rows_many, auto_increment = 13\<rparr>\<rparr>"


definition req_origin :: Request where
  "req_origin = req0\<lparr>Header := (\<lambda>k. if k = ''Origin'' then [''http://localhost:8080''] else [])\<rparr>"


definition no_url_Parse :: url_Parser where
  "no_url_Parse s = Inl ErrURLParse"


definition msgs_many :: "Message list" where
  "msgs_many = map (\<lambda>k. \<lparr>ID = Sprintf_d k, Content = ''m'', CreatedAt = 0, DeletedAt = None\<rparr>)
                 [1, 2, 4, 5, 6, 7, 8, 9, 10, 11]"


definition req_prefix :: Request where
  "req_prefix = req0\<lparr>Header := (\<lambda>k. if k = ''Origin'' then [''http://localhost''] else [])\<rparr>"


definition h_empty_origin :: Handler where
  "h_empty_origin = h0\<lparr>Config := \<lparr>AllowedOrigins = [''http://localhost:3000'', '''']\<rparr>\<rparr>"


definition ev1 :: DeleteEventMessage where
  "ev1 = \<lparr>Type = ''message_deleted'', EventID = ''1'', EventDeletedAt = 42\<rparr>"


definition h_three :: Handler where
  "h_three = h0\<lparr>Clients := [1, 2, 3], Broadcast := [ev1]\<rparr>"


definition env_fail2 :: Env where
  "env_fail2 = env0\<lparr>WriteErr := (\<lambda>c. c = 2)\<rparr>"


definition h_three_after :: Handler where
  "h_three_after = h0\<lparr>Clients := [1, 3], Broadcast := [],
      Trace := [WsWriteJSON 1 ev1, WsWriteJSON 2 ev1, WsClose 2, WsWriteJSON 3 ev1]\<rparr>"


section \<open>A decoder for the examples\<close>









text \<open>Two calls of \<^verbatim>\<open>DELETE /messages/1\<close> in flight, and a schedule that lets both
  run their SELECT before either runs its UPDATE.\<close>

definition race_schedule :: "(nat \<times> Env) list" where
  "race_schedule = [(0, env0), (1, env0), (0, env0\<lparr>Now := 5\<rparr>), (1, env0\<lparr>Now := 7\<rparr>),
                    (0, env0), (1, env0)]"

definition race_calls :: "(string \<times> delete_pc) list" where
  "race_calls = [(''1'', AtSelect), (''1'', AtSelect)]"

section \<open>The two writes to the table, named for the proofs\<close>


definition db_update :: "timestamp \<Rightarrow> string \<Rightarrow> db \<Rightarrow> db" where
  "db_update t i d = d\<lparr>messages := map (set_deleted_at t i) (messages d)\<rparr>"

section \<open>Decimal printing is injective\<close>






section \<open>The outcomes of DeleteMessage\<close>




section \<open>What a call does to the table\<close>


lemma writeAll_Broadcast: "Broadcast (writeAll w ev cs h) = Broadcast h"
  by (induction cs arbitrary: h) (simp_all add: Let_def onWriteError_def record_effect_def)






lemma DeleteMessage_DB:
  "DB (snd (DeleteMessage env r h)) = DB h \<or>
   (list_ex (\<lambda>x. id_is (Vars r ''id'') x \<and> is_active x) (messages (DB h)) \<and>
    DB (snd (DeleteMessage env r h)) = db_update (Now env) (Vars r ''id'') (DB h))"
  by (auto simp: DeleteMessage_def QueryRow_exists_def Exec_update_def record_effect_def Let_def db_update_def
           split: sum.splits if_splits)














section \<open>Delete: not-found, success, and no second success\<close>

lemma Sprintf_d_1: "Sprintf_d 1 = ''1''"
  by (simp add: Sprintf_d.simps digit_char_def)

lemma Sprintf_d_Suc_0: "Sprintf_d (Suc 0) = ''1''"
  by (simp add: Sprintf_d.simps digit_char_def)





section \<open>Delete: the store write and the event\<close>





section \<open>Create: the fields the server sets\<close>

text \<open>
  C4. The message a successful create returns has the id the store assigned (the
  AUTO_INCREMENT value, printed), \<open>created_at\<close> equal to the time the handler read, and
  no \<open>deleted_at\<close>; the row inserted has the same values. Whatever id, created_at and
  deleted_at the decoded body carried, the outcome of the handler is the same.
\<close>

theorem CreateMessage_server_fields:
  assumes "CreateMessage Decode env r h = (StatusCreated m, h')"
  shows "ID m = Sprintf_d (auto_increment (DB h)) \<and> CreatedAt m = Now env \<and> DeletedAt m = None \<and>
         messages (DB h') = messages (DB h) @
           [\<lparr>row_id = auto_increment (DB h), row_content = Content m,
             row_created_at = Now env, row_deleted_at = None\<rparr>] \<and>
         (\<forall>i c d. CreateMessage
            (\<lambda>s. case Decode s of Inl e \<Rightarrow> Inl e
                  | Inr x \<Rightarrow> Inr (x\<lparr>ID := i, CreatedAt := c, DeletedAt := d\<rparr>)) env r h
            = CreateMessage Decode env r h)"
proof -
  have fields: "ID m = Sprintf_d (auto_increment (DB h)) \<and> CreatedAt m = Now env \<and> DeletedAt m = None \<and>
         messages (DB h') = messages (DB h) @
           [\<lparr>row_id = auto_increment (DB h), row_content = Content m,
             row_created_at = Now env, row_deleted_at = None\<rparr>]"
    using assms
    by (auto simp: CreateMessage_def Exec_insert_def LastInsertId_def record_effect_def Let_def
             split: sum.splits if_splits prod.splits)
  have indep: "CreateMessage
            (\<lambda>s. case Decode s of Inl e \<Rightarrow> Inl e
                  | Inr x \<Rightarrow> Inr (x\<lparr>ID := i, CreatedAt := c, DeletedAt := d\<rparr>)) env r h
            = CreateMessage Decode env r h" for i c d
    by (auto simp: CreateMessage_def Exec_insert_def LastInsertId_def record_effect_def Let_def
             split: sum.splits if_splits prod.splits)
  from fields indep show ?thesis by blast
qed

theorem CreateMessage_server_fields_witness:
  "CreateMessage forged_Decode (env0\<lparr>Now := 42\<rparr>) req0 h0 =
     (StatusCreated \<lparr>ID = ''1'', Content = ''hi'', CreatedAt = 42, DeletedAt = None\<rparr>,
      h0\<lparr>DB := \<lparr>messages = [\<lparr>row_id = 1, row_content = ''hi'', row_created_at = 42,
                               row_deleted_at = None\<rparr>], auto_increment = 2\<rparr>,
          Trace := [SqlInsert ''hi'' 42 None]\<rparr>) \<and>
   ID \<lparr>ID = ''1'', Content = ''hi'', CreatedAt = 42, DeletedAt = None\<rparr> =
     Sprintf_d (auto_increment (DB h0))"
proof -
  have run: "CreateMessage forged_Decode (env0\<lparr>Now := 42\<rparr>) req0 h0 =
     (StatusCreated \<lparr>ID = ''1'', Content = ''hi'', CreatedAt = 42, DeletedAt = None\<rparr>,
      h0\<lparr>DB := \<lparr>messages = [\<lparr>row_id = 1, row_content = ''hi'', row_created_at = 42,
                               row_deleted_at = None\<rparr>], auto_increment = 2\<rparr>,
          Trace := [SqlInsert ''hi'' 42 None]\<rparr>)"
    by (simp add: CreateMessage_def forged_Decode_def Exec_insert_def LastInsertId_def
        record_effect_def Let_def env0_def req0_def h0_def Sprintf_d_Suc_0 Sprintf_d_1)
  from CreateMessage_server_fields [OF run] run show ?thesis by blast
qed

section \<open>List: active rows only, at most ten\<close>

lemma set_order_by_rand: "set (order_by_rand rand rs) = set rs"
proof -
  have z: "map snd (zip (map rand [0..<length rs]) rs) = rs"
    by (rule map_snd_zip) simp
  have "set (order_by_rand rand rs) = snd ` set (zip (map rand [0..<length rs]) rs)"
    by (simp add: order_by_rand_def)
  also have "\<dots> = set (map snd (zip (map rand [0..<length rs]) rs))"
    by (simp only: set_map)
  finally show ?thesis by (simp only: z)
qed

lemma length_order_by_rand: "length (order_by_rand rand rs) = length rs"
  by (simp add: order_by_rand_def)

lemma scan_rows_eq:
  "scan_rows scanErr rs msgList = msgList @ map scan_row (filter (\<lambda>r. \<not> scanErr r) rs)"
  by (induction rs arbitrary: msgList) simp_all

lemma GetMessages_query_not_Forbidden: "fst (GetMessages_query env h) \<noteq> StatusForbidden s"
  by (simp add: GetMessages_query_def Let_def split: sum.splits)

lemma GetMessages_OK_query:
  assumes "GetMessages U env r h = (StatusOK msgList, h')"
  shows "GetMessages_query env h = (StatusOK msgList, h')"
  using assms
  by (simp add: GetMessages_def Let_def split: if_splits sum.splits)

lemma GetMessages_query_OK:
  assumes "GetMessages_query env h = (StatusOK msgList, h')"
  shows "msgList = map scan_row (filter (\<lambda>r. \<not> ScanErr env r)
           (take maxMessagesPerRequest (order_by_rand (Rand env) (filter is_active (messages (DB h))))))"
  using assms
  by (simp add: GetMessages_query_def Query_active_def Let_def record_effect_def scan_rows_eq
           split: if_splits sum.splits)

text \<open>
  C5. A list request that passes the origin check and gets its rows from the store
  returns only scans of rows whose \<open>deleted_at\<close> is absent (and each returned message
  has no \<open>deleted_at\<close>), and never more than 10 of them. When no scan fails it returns
  as many as there are active rows, up to 10: with more than 10 active rows, exactly 10.
\<close>

theorem GetMessages_only_active_capped:
  assumes "GetMessages url_Parse env r h = (StatusOK msgList, h')"
  shows "list_all (\<lambda>m. DeletedAt m = None \<and>
                      list_ex (\<lambda>x. row_deleted_at x = None \<and> m = scan_row x) (messages (DB h)))
           msgList \<and>
         length msgList \<le> maxMessagesPerRequest \<and> maxMessagesPerRequest = 10 \<and>
         ((\<forall>x. \<not> ScanErr env x) \<longrightarrow>
            length msgList = min 10 (length (filter is_active (messages (DB h)))) \<and>
            (10 < length (filter is_active (messages (DB h))) \<longrightarrow> length msgList = 10))"
proof -
  let ?act = "filter is_active (messages (DB h))"
  let ?sel = "take maxMessagesPerRequest (order_by_rand (Rand env) ?act)"
  have eq: "msgList = map scan_row (filter (\<lambda>r. \<not> ScanErr env r) ?sel)"
    using assms by (intro GetMessages_query_OK GetMessages_OK_query)
  have sub: "set ?sel \<subseteq> set ?act"
    using set_take_subset [of maxMessagesPerRequest "order_by_rand (Rand env) ?act"]
    by (simp only: set_order_by_rand)
  have a: "list_all (\<lambda>m. DeletedAt m = None \<and>
                      list_ex (\<lambda>x. row_deleted_at x = None \<and> m = scan_row x) (messages (DB h)))
           msgList"
    unfolding list_all_iff list_ex_iff
  proof
    fix m assume "m \<in> set msgList"
    then obtain x where x: "x \<in> set ?sel" "m = scan_row x"
      unfolding eq by auto
    with sub have "x \<in> set ?act" by blast
    then have "x \<in> set (messages (DB h))" "row_deleted_at x = None"
      by (simp_all add: is_active_def)
    with x(2) show "DeletedAt m = None \<and>
        (\<exists>x\<in>set (messages (DB h)). row_deleted_at x = None \<and> m = scan_row x)"
      by (auto simp: scan_row_def zero_Message_def)
  qed
  have "length msgList \<le> length ?sel"
    unfolding eq by (simp only: length_map length_filter_le)
  also have "\<dots> \<le> maxMessagesPerRequest" by simp
  finally have b: "length msgList \<le> maxMessagesPerRequest" .
  have c: "length msgList = min 10 (length ?act)" if "\<forall>x. \<not> ScanErr env x"
    using that unfolding eq
    by (simp add: length_order_by_rand maxMessagesPerRequest_def min.commute)
  from a b c show ?thesis
    by (simp add: maxMessagesPerRequest_def)
qed

lemma run_many:
  "GetMessages no_url_Parse env0 req_origin h_many =
     (StatusOK msgs_many, record_effect (SqlSelectActive 10) h_many)"
  by code_simp

theorem GetMessages_only_active_capped_witness:
  "GetMessages no_url_Parse env0 req_origin h_many =
     (StatusOK msgs_many, record_effect (SqlSelectActive 10) h_many) \<and>
   length (filter is_active (messages (DB h_many))) = 11 \<and>
   length (messages (DB h_many)) = 12 \<and>
   length msgs_many = 10"
proof -
  have n: "length (filter is_active (messages (DB h_many))) = 11"
    by code_simp
  have m: "length (messages (DB h_many)) = 12"
    by code_simp
  have s: "\<forall>x. \<not> ScanErr env0 x"
    by (simp add: env0_def)
  from GetMessages_only_active_capped [OF run_many] s n
  have "length msgs_many = 10" by simp
  with run_many n m show ?thesis by blast
qed

section \<open>The origin checks\<close>

lemma isOriginAllowed_loop_iff: "isOriginAllowed_loop origin xs = (origin \<in> set xs)"
  by (induction xs) auto

lemma isOriginAllowed_iff: "isOriginAllowed h origin = (origin \<in> set (AllowedOrigins (Config h)))"
  by (simp add: isOriginAllowed_def isOriginAllowed_loop_iff)

lemma fold_allowedMap:
  "fold (\<lambda>origin allowedMap. allowedMap(origin \<mapsto> True)) xs m k =
     (if k \<in> set xs then Some True else m k)"
  by (induction xs arbitrary: m) auto

lemma createUpgrader_eq:
  "createUpgrader xs k = (if k \<in> set xs then Some True else None)"
  by (simp add: createUpgrader_def fold_allowedMap)

lemma CheckOrigin_iff:
  "CheckOrigin (createUpgrader xs) r = (Header_Get r ''Origin'' \<in> set xs)"
  by (simp add: CheckOrigin_def createUpgrader_eq)

text \<open>
  C7. A list request with a non-empty Origin header is rejected exactly when that origin
  is not in the configured list. With no Origin, it is rejected exactly when the Referer
  is missing, or does not parse, or parses without a scheme or a host, or its
  \<open>scheme://host\<close> is not in the list. A rejection is the 403 response and leaves the
  state as it was: no call to the store is made. A request that is not rejected goes on
  to the query. The list checked is the one the subscription endpoint builds its map
  from.
\<close>

theorem GetMessages_origin_validation:
  "(let origin = Header_Get r ''Origin'';
        referer = Header_Get r ''Referer'';
        allowed = set (AllowedOrigins (Config h));
        rejected = (fst (GetMessages url_Parse env r h) = StatusForbidden ''Forbidden'')
    in (origin \<noteq> [] \<longrightarrow> rejected = (origin \<notin> allowed)) \<and>
       (origin = [] \<longrightarrow>
          rejected = (referer = [] \<or>
             (case url_Parse referer of
                Inl err \<Rightarrow> True
              | Inr parsed \<Rightarrow> Scheme parsed = [] \<or> Host parsed = [] \<or>
                              Scheme parsed @ ''://'' @ Host parsed \<notin> allowed))) \<and>
       (rejected \<longrightarrow> snd (GetMessages url_Parse env r h) = h) \<and>
       (\<not> rejected \<longrightarrow> GetMessages url_Parse env r h = GetMessages_query env h) \<and>
       (\<forall>origin. (origin \<in> allowed) = isOriginAllowed h origin \<and>
                 (origin \<in> allowed) = (createUpgrader (AllowedOrigins (Config h)) origin = Some True)))"
proof -
  have a: "Header_Get r ''Origin'' \<noteq> [] \<Longrightarrow>
      (fst (GetMessages url_Parse env r h) = StatusForbidden ''Forbidden'') =
      (Header_Get r ''Origin'' \<notin> set (AllowedOrigins (Config h)))"
    by (simp add: GetMessages_def Let_def isOriginAllowed_iff GetMessages_query_not_Forbidden)
  have b: "Header_Get r ''Origin'' = [] \<Longrightarrow>
      (fst (GetMessages url_Parse env r h) = StatusForbidden ''Forbidden'') =
      (Header_Get r ''Referer'' = [] \<or>
             (case url_Parse (Header_Get r ''Referer'') of
                Inl err \<Rightarrow> True
              | Inr parsed \<Rightarrow> Scheme parsed = [] \<or> Host parsed = [] \<or>
                  Scheme parsed @ ''://'' @ Host parsed \<notin> set (AllowedOrigins (Config h))))"
    by (simp add: GetMessages_def Let_def isOriginAllowed_iff GetMessages_query_not_Forbidden
             split: sum.splits)
  have c: "fst (GetMessages url_Parse env r h) = StatusForbidden ''Forbidden'' \<Longrightarrow>
      snd (GetMessages url_Parse env r h) = h"
    by (auto simp: GetMessages_def Let_def GetMessages_query_not_Forbidden split: sum.splits if_splits)
  have d: "fst (GetMessages url_Parse env r h) \<noteq> StatusForbidden ''Forbidden'' \<Longrightarrow>
      GetMessages url_Parse env r h = GetMessages_query env h"
    by (auto simp: GetMessages_def Let_def split: sum.splits if_splits)
  have e: "(origin \<in> set (AllowedOrigins (Config h))) = isOriginAllowed h origin \<and>
           (origin \<in> set (AllowedOrigins (Config h))) =
             (createUpgrader (AllowedOrigins (Config h)) origin = Some True)" for origin
    by (simp add: isOriginAllowed_iff createUpgrader_eq)
  from a b c d e show ?thesis
    unfolding Let_def by blast
qed

theorem GetMessages_origin_validation_witness:
  "Header_Get req0 ''Origin'' = [] \<and> Header_Get req0 ''Referer'' = [] \<and>
   GetMessages no_url_Parse env0 req0 h_many = (StatusForbidden ''Forbidden'', h_many) \<and>
   Header_Get req_origin ''Origin'' = ''http://localhost:8080'' \<and>
   fst (GetMessages no_url_Parse env0 req_origin h_many) \<noteq> StatusForbidden ''Forbidden''"
proof -
  have o: "Header_Get req0 ''Origin'' = []" and f: "Header_Get req0 ''Referer'' = []"
    by (simp_all add: Header_Get_def req0_def)
  have o2: "Header_Get req_origin ''Origin'' = ''http://localhost:8080''"
    by (simp add: Header_Get_def req_origin_def req0_def)
  have al: "''http://localhost:8080'' \<in> set (AllowedOrigins (Config h_many))"
    by (simp add: h_many_def h0_def)
  note T = GetMessages_origin_validation
  from T [of req0 h_many no_url_Parse env0] o f
  have "fst (GetMessages no_url_Parse env0 req0 h_many) = StatusForbidden ''Forbidden'' \<and>
        snd (GetMessages no_url_Parse env0 req0 h_many) = h_many"
    by (simp add: Let_def)
  then have r1: "GetMessages no_url_Parse env0 req0 h_many = (StatusForbidden ''Forbidden'', h_many)"
    by (metis prod.collapse)
  from T [of req_origin h_many no_url_Parse env0] o2 al
  have r2: "fst (GetMessages no_url_Parse env0 req_origin h_many) \<noteq> StatusForbidden ''Forbidden''"
    by (simp add: Let_def)
  from o f r1 o2 r2 show ?thesis by blast
qed

section \<open>Subscribe: refusing an origin\<close>

lemma HandleWebSocket_refused:
  assumes "Header_Get r ''Origin'' \<notin> set (AllowedOrigins (Config h))"
  shows "HandleWebSocket env r h =
           (Inl (if UpgradeErr env then ErrBadHandshake else ErrOriginNotAllowed), h)"
  using assms
  by (simp add: HandleWebSocket_def Upgrade_def CheckOrigin_iff Let_def)

lemma HandleWebSocket_accepted:
  assumes "Header_Get r ''Origin'' \<in> set (AllowedOrigins (Config h))" and "\<not> UpgradeErr env"
  shows "HandleWebSocket env r h =
           (Inr (NewConn env),
            (record_effect (WsUpgrade (NewConn env)) h)\<lparr>Clients := Clients_put (NewConn env) (Clients h)\<rparr>)"
  using assms
  by (simp add: HandleWebSocket_def Upgrade_def CheckOrigin_iff Let_def)

text \<open>
  C6. A subscription attempt whose Origin is not one of the configured origins, string
  for string, is refused: the upgrade returns an error and no connection, and the
  handler leaves the state as it was, so the registry and its count are unchanged.
  (The example refuses \<open>http://localhost\<close>, a prefix of an allowed origin.)
\<close>

theorem HandleWebSocket_refuses_unlisted_origin:
  assumes "Header_Get r ''Origin'' \<notin> set (AllowedOrigins (Config h))"
  shows "(\<exists>err. fst (HandleWebSocket env r h) = Inl err) \<and>
         snd (HandleWebSocket env r h) = h \<and>
         Clients (snd (HandleWebSocket env r h)) = Clients h \<and>
         length (Clients (snd (HandleWebSocket env r h))) = length (Clients h) \<and>
         Trace (snd (HandleWebSocket env r h)) = Trace h"
  by (simp add: HandleWebSocket_refused [OF assms])

theorem HandleWebSocket_refuses_unlisted_origin_witness:
  "Header_Get req_prefix ''Origin'' = ''http://localhost'' \<and>
   AllowedOrigins (Config h0) = [''http://localhost:8080'', ''http://127.0.0.1:8080''] \<and>
   Header_Get req_prefix ''Origin'' \<notin> set (AllowedOrigins (Config h0)) \<and>
   snd (HandleWebSocket env0 req_prefix h0) = h0 \<and>
   length (Clients (snd (HandleWebSocket env0 req_prefix h0))) = length (Clients h0)"
proof -
  have o: "Header_Get req_prefix ''Origin'' = ''http://localhost''"
    by (simp add: Header_Get_def req_prefix_def req0_def)
  have a: "AllowedOrigins (Config h0) = [''http://localhost:8080'', ''http://127.0.0.1:8080'']"
    by (simp add: h0_def)
  have n: "Header_Get req_prefix ''Origin'' \<notin> set (AllowedOrigins (Config h0))"
    by (simp add: o a)
  from HandleWebSocket_refuses_unlisted_origin [OF n, of env0] o a n
  show ?thesis by blast
qed

text \<open>
  C10. With no Origin header the check looks the empty string up in the map: the attempt
  is refused, with the state unchanged, unless the empty string is itself a configured
  origin; if it is, and the handshake is otherwise sound, the connection is made.
\<close>

theorem HandleWebSocket_absent_Origin:
  assumes "Header r ''Origin'' = []"
  shows "CheckOrigin (createUpgrader (AllowedOrigins (Config h))) r =
           ([] \<in> set (AllowedOrigins (Config h))) \<and>
         ([] \<notin> set (AllowedOrigins (Config h)) \<longrightarrow>
            (\<exists>err. fst (HandleWebSocket env r h) = Inl err) \<and>
            snd (HandleWebSocket env r h) = h) \<and>
         ([] \<in> set (AllowedOrigins (Config h)) \<and> \<not> UpgradeErr env \<longrightarrow>
            fst (HandleWebSocket env r h) = Inr (NewConn env))"
proof -
  from assms have g: "Header_Get r ''Origin'' = []"
    by (simp add: Header_Get_def)
  show ?thesis
    using HandleWebSocket_refused [of r h env] HandleWebSocket_accepted [of r h env]
    by (simp add: CheckOrigin_iff g)
qed

theorem HandleWebSocket_absent_Origin_witness:
  "Header req0 ''Origin'' = [] \<and>
   [] \<notin> set (AllowedOrigins (Config h0)) \<and>
   HandleWebSocket env0 req0 h0 = (Inl ErrOriginNotAllowed, h0) \<and>
   [] \<in> set (AllowedOrigins (Config h_empty_origin)) \<and>
   fst (HandleWebSocket env0 req0 h_empty_origin) = Inr 0"
proof -
  have o: "Header req0 ''Origin'' = []"
    by (simp add: req0_def)
  have n: "[] \<notin> set (AllowedOrigins (Config h0))"
    by (simp add: h0_def)
  have y: "[] \<in> set (AllowedOrigins (Config h_empty_origin))"
    by (simp add: h_empty_origin_def)
  have u: "\<not> UpgradeErr env0" and c: "NewConn env0 = 0"
    by (simp_all add: env0_def)
  note T = HandleWebSocket_absent_Origin [OF o]
  from T [of h0 env0] n obtain err where
    e: "fst (HandleWebSocket env0 req0 h0) = Inl err" and s: "snd (HandleWebSocket env0 req0 h0) = h0"
    by blast
  have "fst (HandleWebSocket env0 req0 h0) = Inl ErrOriginNotAllowed"
    by (simp add: HandleWebSocket_def Upgrade_def CheckOrigin_def createUpgrader_def Let_def
        Header_Get_def req0_def h0_def env0_def)
  with s have r1: "HandleWebSocket env0 req0 h0 = (Inl ErrOriginNotAllowed, h0)"
    by (metis prod.collapse)
  from T [of h_empty_origin env0] y u c
  have r2: "fst (HandleWebSocket env0 req0 h_empty_origin) = Inr 0" by simp
  from o n r1 y r2 show ?thesis by blast
qed

section \<open>Dispatch: a failed write stays local\<close>

lemma writeAll_append: "writeAll w ev (xs @ ys) h = writeAll w ev ys (writeAll w ev xs h)"
  by (induction xs arbitrary: h) (simp_all add: Let_def)

lemma writeAll_Trace:
  "Trace (writeAll w ev cs h) =
     Trace h @ concat (map (\<lambda>c. if w c then [WsWriteJSON c ev, WsClose c] else [WsWriteJSON c ev]) cs)"
  by (induction cs arbitrary: h) (simp_all add: Let_def onWriteError_def record_effect_def)

lemma writeAll_Clients:
  "Clients (writeAll w ev cs h) = filter (\<lambda>c. \<not> (w c \<and> c \<in> set cs)) (Clients h)"
proof (induction cs arbitrary: h)
  case Nil
  then show ?case by simp
next
  case (Cons client rest)
  show ?case
  proof (cases "w client")
    case True
    have "filter (\<lambda>c. \<not> (w c \<and> c \<in> set rest)) (removeAll client (Clients h)) =
          filter (\<lambda>c. \<not> (w c \<and> c \<in> set (client # rest))) (Clients h)"
      using True by (auto simp: removeAll_filter_not_eq intro: filter_cong)
    with True show ?thesis
      by (simp add: Cons.IH Let_def onWriteError_def record_effect_def Clients_delete_def)
  next
    case False
    have "filter (\<lambda>c. \<not> (w c \<and> c \<in> set rest)) (Clients h) =
          filter (\<lambda>c. \<not> (w c \<and> c \<in> set (client # rest))) (Clients h)"
      using False by (auto intro: filter_cong)
    with False show ?thesis
      by (simp add: Cons.IH Let_def record_effect_def)
  qed
qed

lemma writeAll_after_disconnect:
  "Trace (writeAll w ev ys (disconnect c h)) = Trace (writeAll w ev ys h) \<and>
   Clients (writeAll w ev ys (disconnect c h)) = Clients_delete c (Clients (writeAll w ev ys h))"
  by (simp add: writeAll_Trace writeAll_Clients disconnect_def Clients_delete_def
      removeAll_filter_not_eq conj_commute)

lemma removal_twice:
  "Clients (disconnect c (onWriteError c h)) = Clients (onWriteError c h) \<and>
   Clients (onWriteError c (disconnect c h)) = Clients (disconnect c h) \<and>
   Clients (onWriteError c h) = Clients (disconnect c h)"
  by (simp add: disconnect_def onWriteError_def record_effect_def Clients_delete_def)

lemma removal_count:
  assumes "distinct (Clients h)" and "c \<in> set (Clients h)"
  shows "length (Clients (disconnect c (onWriteError c h))) = length (Clients h) - 1"
proof -
  have "length (removeAll c (Clients h)) = length (Clients h) - 1"
    using assms by (simp add: distinct_remove1_removeAll [symmetric] length_remove1)
  then show ?thesis
    by (simp add: disconnect_def onWriteError_def record_effect_def Clients_delete_def)
qed

lemma HandleBroadcast_drains:
  "Broadcast (HandleBroadcast envs h) = drop (length envs) (Broadcast h)"
proof (induction envs arbitrary: h)
  case Nil
  then show ?case by simp
next
  case (Cons env envs)
  show ?case
  proof (cases "Broadcast h")
    case Nil
    then show ?thesis by (simp add: broadcastOne_def)
  next
    case (Cons event queue)
    then show ?thesis
      by (simp add: broadcastOne_def Let_def Cons.IH writeAll_Broadcast)
  qed
qed

text \<open>
  C8. One iteration of the dispatch loop on a queued event: every connection of the
  snapshot gets its write, in snapshot order, whatever happened to the writes before
  it; a connection whose write fails is closed and leaves the registry, the others stay;
  the loop goes on to the next iteration and the queue shrinks by one event for each
  iteration made. A removal on the disconnect path at any point between two writes
  changes nothing but the absence of that connection. The two removals of one
  connection, in either order, leave the registry that one of them leaves, and its
  count goes down by one, not two. Each removal is atomic (it runs under the write lock).
\<close>

theorem HandleBroadcast_write_failure_is_local:
  assumes "Broadcast h = event # queue"
  shows "\<exists>h1. broadcastOne env h = Some h1 \<and>
          (let snap = snapshot (MapOrder env) h;
               failed = WriteErr env
           in set snap = set (Clients h) \<and>
              Trace h1 = Trace h @
                concat (map (\<lambda>c. if failed c then [WsWriteJSON c event, WsClose c]
                                 else [WsWriteJSON c event]) snap) \<and>
              Clients h1 = filter (\<lambda>c. \<not> failed c) (Clients h) \<and>
              Broadcast h1 = queue \<and>
              HandleBroadcast (env # envs) h = HandleBroadcast envs h1 \<and>
              Broadcast (HandleBroadcast (env # envs) h) = drop (length envs) queue \<and>
              (\<forall>c xs ys. snap = xs @ ys \<longrightarrow>
                 Trace (writeAll failed event ys
                          (disconnect c (writeAll failed event xs (h\<lparr>Broadcast := queue\<rparr>)))) = Trace h1 \<and>
                 Clients (writeAll failed event ys
                          (disconnect c (writeAll failed event xs (h\<lparr>Broadcast := queue\<rparr>)))) =
                   Clients_delete c (Clients h1)) \<and>
              (\<forall>c. Clients (disconnect c (onWriteError c h)) = Clients (onWriteError c h) \<and>
                   Clients (onWriteError c (disconnect c h)) = Clients (disconnect c h) \<and>
                   Clients (onWriteError c h) = Clients (disconnect c h) \<and>
                   (distinct (Clients h) \<and> c \<in> set (Clients h) \<longrightarrow>
                      length (Clients (disconnect c (onWriteError c h))) = length (Clients h) - 1)))"
proof -
  let ?h2 = "h\<lparr>Broadcast := queue\<rparr>"
  let ?snap = "snapshot (MapOrder env) h"
  let ?w = "WriteErr env"
  let ?h1 = "writeAll ?w event ?snap ?h2"
  have sn: "snapshot (MapOrder env) ?h2 = ?snap"
    by (simp add: snapshot_def)
  have one: "broadcastOne env h = Some ?h1"
    using assms by (simp add: broadcastOne_def Let_def sn)
  have s: "set ?snap = set (Clients h)"
    by (simp add: snapshot_def)
  have t: "Trace ?h1 = Trace h @
                concat (map (\<lambda>c. if ?w c then [WsWriteJSON c event, WsClose c]
                                 else [WsWriteJSON c event]) ?snap)"
    by (simp add: writeAll_Trace)
  have c: "Clients ?h1 = filter (\<lambda>c. \<not> ?w c) (Clients h)"
    by (auto simp: writeAll_Clients s intro: filter_cong)
  have b: "Broadcast ?h1 = queue"
    by (simp add: writeAll_Broadcast)
  have l: "HandleBroadcast (env # envs) h = HandleBroadcast envs ?h1"
    by (simp add: one)
  have d: "Broadcast (HandleBroadcast (env # envs) h) = drop (length envs) queue"
    by (simp add: HandleBroadcast_drains assms del: HandleBroadcast.simps)
  have i: "Trace (writeAll ?w event ys (disconnect c (writeAll ?w event xs ?h2))) = Trace ?h1 \<and>
           Clients (writeAll ?w event ys (disconnect c (writeAll ?w event xs ?h2))) =
             Clients_delete c (Clients ?h1)" if "?snap = xs @ ys" for c xs ys
    using writeAll_after_disconnect [of ?w event ys c "writeAll ?w event xs ?h2"]
    by (simp add: that writeAll_append)
  have r: "Clients (disconnect c (onWriteError c h)) = Clients (onWriteError c h) \<and>
           Clients (onWriteError c (disconnect c h)) = Clients (disconnect c h) \<and>
           Clients (onWriteError c h) = Clients (disconnect c h) \<and>
           (distinct (Clients h) \<and> c \<in> set (Clients h) \<longrightarrow>
              length (Clients (disconnect c (onWriteError c h))) = length (Clients h) - 1)" for c
    using removal_twice [of c h] removal_count [of h c] by blast
  from s t c b l d i r have "(let snap = snapshot (MapOrder env) h;
               failed = WriteErr env
           in set snap = set (Clients h) \<and>
              Trace ?h1 = Trace h @
                concat (map (\<lambda>c. if failed c then [WsWriteJSON c event, WsClose c]
                                 else [WsWriteJSON c event]) snap) \<and>
              Clients ?h1 = filter (\<lambda>c. \<not> failed c) (Clients h) \<and>
              Broadcast ?h1 = queue \<and>
              HandleBroadcast (env # envs) h = HandleBroadcast envs ?h1 \<and>
              Broadcast (HandleBroadcast (env # envs) h) = drop (length envs) queue \<and>
              (\<forall>c xs ys. snap = xs @ ys \<longrightarrow>
                 Trace (writeAll failed event ys
                          (disconnect c (writeAll failed event xs (h\<lparr>Broadcast := queue\<rparr>)))) = Trace ?h1 \<and>
                 Clients (writeAll failed event ys
                          (disconnect c (writeAll failed event xs (h\<lparr>Broadcast := queue\<rparr>)))) =
                   Clients_delete c (Clients ?h1)) \<and>
              (\<forall>c. Clients (disconnect c (onWriteError c h)) = Clients (onWriteError c h) \<and>
                   Clients (onWriteError c (disconnect c h)) = Clients (disconnect c h) \<and>
                   Clients (onWriteError c h) = Clients (disconnect c h) \<and>
                   (distinct (Clients h) \<and> c \<in> set (Clients h) \<longrightarrow>
                      length (Clients (disconnect c (onWriteError c h))) = length (Clients h) - 1)))"
    unfolding Let_def by blast
  with one show ?thesis by blast
qed

theorem HandleBroadcast_write_failure_is_local_witness:
  "Broadcast h_three = [ev1] \<and>
   broadcastOne env_fail2 h_three = Some h_three_after \<and>
   Clients h_three = [1, 2, 3] \<and>
   Clients h_three_after = [1, 3] \<and>
   Trace h_three_after = Trace h_three @
     [WsWriteJSON 1 ev1, WsWriteJSON 2 ev1, WsClose 2, WsWriteJSON 3 ev1] \<and>
   HandleBroadcast [env_fail2, env0] h_three = HandleBroadcast [env0] h_three_after"
proof -
  have b: "Broadcast h_three = [ev1]"
    by (simp add: h_three_def)
  have run: "broadcastOne env_fail2 h_three = Some h_three_after"
    by code_simp
  have c0: "Clients h_three = [1, 2, 3]"
    by (simp add: h_three_def)
  have t0: "Trace h_three = []"
    by (simp add: h_three_def h0_def)
  from HandleBroadcast_write_failure_is_local [OF b, of env_fail2 "[env0]"]
  obtain h1 where h1: "broadcastOne env_fail2 h_three = Some h1"
    and c: "Clients h1 = filter (\<lambda>c. \<not> WriteErr env_fail2 c) (Clients h_three)"
    and l: "HandleBroadcast [env_fail2, env0] h_three = HandleBroadcast [env0] h1"
    unfolding Let_def by blast
  from h1 run have e: "h1 = h_three_after" by simp
  from c e c0 have c1: "Clients h_three_after = [1, 3]"
    by (simp add: env_fail2_def)
  have t1: "Trace h_three_after = Trace h_three @
     [WsWriteJSON 1 ev1, WsWriteJSON 2 ev1, WsClose 2, WsWriteJSON 3 ev1]"
    by (simp add: t0 h_three_after_def)
  from b run c0 c1 t1 l e show ?thesis by blast
qed

section \<open>Delete: two calls at once\<close>

text \<open>Run alone, the three steps are the handler.\<close>

lemma DeleteMessage_is_its_steps:
  "run_deletes [(0, env), (0, env), (0, env)] [(Vars r ''id'', AtSelect)] h =
     (case DeleteMessage env r h of
        (Some resp, h1) \<Rightarrow> ([(Vars r ''id'', Returned resp)], h1)
      | (None, h1) \<Rightarrow> ([(Vars r ''id'', AtSend (Now env))], h1))"
  by (simp add: DeleteMessage_def DeleteMessage_step_def Let_def record_effect_def
      Exec_update_def QueryRow_exists_def)

text \<open>
  C3. Two deletes of message 1 run at once. Both SELECTs find the row active before
  either UPDATE runs; the first UPDATE sets \<open>deleted_at\<close> to 5 and the second, whose
  \<^verbatim>\<open>WHERE\<close> clause does not ask for \<open>deleted_at IS NULL\<close>, sets it again, to 7. Both
  calls answer 204 and two events are queued, the first with a time the row no longer
  has.
\<close>

theorem concurrent_deletes_set_deleted_at_twice:
  "map row_deleted_at (messages (DB h_one)) = [None] \<and>
   map row_deleted_at (messages (DB (snd (run_deletes (take 3 race_schedule) race_calls h_one)))) =
     [Some 5] \<and>
   map row_deleted_at (messages (DB (snd (run_deletes (take 4 race_schedule) race_calls h_one)))) =
     [Some 7] \<and>
   map snd (fst (run_deletes race_schedule race_calls h_one)) =
     [Returned StatusNoContent, Returned StatusNoContent] \<and>
   Broadcast (snd (run_deletes race_schedule race_calls h_one)) =
     [\<lparr>Type = ''message_deleted'', EventID = ''1'', EventDeletedAt = 5\<rparr>,
      \<lparr>Type = ''message_deleted'', EventID = ''1'', EventDeletedAt = 7\<rparr>] \<and>
   Trace (snd (run_deletes race_schedule race_calls h_one)) =
     [SqlSelectExists ''1'', SqlSelectExists ''1'',
      SqlUpdateDeletedAt 5 ''1'', SqlUpdateDeletedAt 7 ''1'',
      ChanSend \<lparr>Type = ''message_deleted'', EventID = ''1'', EventDeletedAt = 5\<rparr>,
      ChanSend \<lparr>Type = ''message_deleted'', EventID = ''1'', EventDeletedAt = 7\<rparr>]"
  by code_simp

section \<open>Create: what is rejected\<close>










section \<open>Delete: the time stored\<close>

text \<open>
  A delete whose clock is not behind the creation times keeps every \<open>deleted_at\<close> at or
  after its \<open>created_at\<close>.
\<close>

lemma DeleteMessage_deleted_at_not_before_created_at:
  assumes "list_all (\<lambda>x. row_created_at x \<le> Now env) (messages (DB h))"
    and "list_all (\<lambda>x. case row_deleted_at x of None \<Rightarrow> True | Some t \<Rightarrow> row_created_at x \<le> t)
           (messages (DB h))"
  shows "list_all (\<lambda>x. case row_deleted_at x of None \<Rightarrow> True | Some t \<Rightarrow> row_created_at x \<le> t)
           (messages (DB (snd (DeleteMessage env r h))))"
  using DeleteMessage_DB [of env r h] assms
  by (auto simp: db_update_def list_all_iff set_deleted_at_def)


end
